theory Spec2Isabelle
  imports Main "HOL-Library.Char_ord" "HOL-Library.List_Lexorder" "HOL-Library.Sublist"
    "HOL-Library.Multiset" "HOL-Library.AList"
begin

section \<open>Python values used by the two scripts\<close>

text \<open>
  Strings are lists of characters. A \<^typ>\<open>char\<close> stands for a code point below 256, so
  the model covers the Latin-1 range of Python's \<open>str\<close>; every literal of the two scripts
  is ASCII. Strings are compared as Python compares them: lexicographically by code point
  (the order of \<open>HOL-Library.List_Lexorder\<close> over \<open>HOL-Library.Char_ord\<close>).
\<close>

datatype py_error = KeyError string | ValueError

definition is_ascii_upper :: "char \<Rightarrow> bool" where
  "is_ascii_upper c \<longleftrightarrow> CHR ''A'' \<le> c \<and> c \<le> CHR ''Z''"

definition is_ascii_lower :: "char \<Rightarrow> bool" where
  "is_ascii_lower c \<longleftrightarrow> CHR ''a'' \<le> c \<and> c \<le> CHR ''z''"

definition is_ascii_digit :: "char \<Rightarrow> bool" where
  "is_ascii_digit c \<longleftrightarrow> CHR ''0'' \<le> c \<and> c \<le> CHR ''9''"

text \<open>The character class \<open>[a-zA-Z0-9]\<close> of the regular expression in \<open>sanitize_id\<close>.\<close>

definition is_ascii_alnum :: "char \<Rightarrow> bool" where
  "is_ascii_alnum c \<longleftrightarrow> is_ascii_lower c \<or> is_ascii_upper c \<or> is_ascii_digit c"

text \<open>
  \<open>str.lower()\<close> on code points below 256: the ASCII capitals and the Latin-1 capitals
  (\<open>0xC0\<close> to \<open>0xDE\<close>, the multiplication sign \<open>0xD7\<close> apart) move up by 32.
\<close>

definition py_lower_char :: "char \<Rightarrow> char" where
  "py_lower_char c =
     (let n = (of_char c :: nat)
      in if (65 \<le> n \<and> n \<le> 90) \<or> (192 \<le> n \<and> n \<le> 222 \<and> n \<noteq> 215)
         then char_of (n + 32) else c)"

definition py_lower :: "string \<Rightarrow> string" where
  "py_lower s = map py_lower_char s"

text \<open>
  \<open>str.isdigit()\<close> on one character below 256: the ASCII digits and the superscript
  digits \<open>0xB2\<close>, \<open>0xB3\<close>, \<open>0xB9\<close>.
\<close>

definition py_isdigit :: "char \<Rightarrow> bool" where
  "py_isdigit c \<longleftrightarrow> is_ascii_digit c \<or> (of_char c :: nat) \<in> {178, 179, 185}"

text \<open>\<open>str.isspace()\<close> on one character below 256, the class that \<open>str.strip()\<close> removes.\<close>

definition py_isspace :: "char \<Rightarrow> bool" where
  "py_isspace c \<longleftrightarrow>
     (let n = (of_char c :: nat)
      in (9 \<le> n \<and> n \<le> 13) \<or> (28 \<le> n \<and> n \<le> 32) \<or> n = 133 \<or> n = 160)"

text \<open>\<open>s.strip(chars)\<close> and \<open>s.strip()\<close>: drop the class at both ends.\<close>

definition strip_where :: "(char \<Rightarrow> bool) \<Rightarrow> string \<Rightarrow> string" where
  "strip_where p s = rev (dropWhile p (rev (dropWhile p s)))"

definition py_strip :: "string \<Rightarrow> string" where
  "py_strip s = strip_where py_isspace s"

text \<open>
  \<open>re.sub(r'[class]+', repl, s)\<close>: scanning from the left, every maximal run of characters
  of the class is replaced by \<open>repl\<close>.
\<close>

function re_sub_runs :: "(char \<Rightarrow> bool) \<Rightarrow> string \<Rightarrow> string \<Rightarrow> string" where
  "re_sub_runs p repl [] = []"
| "re_sub_runs p repl (c # cs) =
     (if p c then repl @ re_sub_runs p repl (dropWhile p cs)
      else c # re_sub_runs p repl cs)"
  by pat_completeness auto
termination
  by (relation "measure (\<lambda>(p, repl, s). length s)")
     (auto simp: less_Suc_eq_le length_dropWhile_le)

text \<open>Decimal rendering of integers, as \<open>str(n)\<close> and \<open>f"{n}"\<close> give it.\<close>

definition digit_char :: "nat \<Rightarrow> char" where
  "digit_char d = char_of (of_char (CHR ''0'') + d)"

fun py_str_nat :: "nat \<Rightarrow> string" where
  "py_str_nat n =
     (if n < 10 then [digit_char n]
      else py_str_nat (n div 10) @ [digit_char (n mod 10)])"

declare py_str_nat.simps [simp del]

definition py_str_int :: "int \<Rightarrow> string" where
  "py_str_int i = (if i < 0 then ''-'' @ py_str_nat (nat (- i)) else py_str_nat (nat i))"

text \<open>\<open>sep.join(xs)\<close>.\<close>

fun py_join :: "string \<Rightarrow> string list \<Rightarrow> string" where
  "py_join sep [] = []"
| "py_join sep [x] = x"
| "py_join sep (x # y # ys) = x @ sep @ py_join sep (y # ys)"

text \<open>\<open>max\<close> and \<open>min\<close> of a sequence of integers; both raise \<open>ValueError\<close> on an empty one.\<close>

fun py_max :: "int list \<Rightarrow> py_error + int" where
  "py_max [] = Inl ValueError"
| "py_max (x # xs) = Inr (fold max xs x)"

fun py_min :: "int list \<Rightarrow> py_error + int" where
  "py_min [] = Inl ValueError"
| "py_min (x # xs) = Inr (fold min xs x)"

section \<open>The importer: \<open>scripts/parse_excalidraw.py\<close>\<close>

subsection \<open>\<open>sanitize_id\<close>\<close>

text \<open>
  Decimal rendering is injective, so the candidates \<open>orig_2\<close>, \<open>orig_3\<close>, ... of the loop
  below are pairwise different and only finitely many of them are taken.
\<close>

lemma digit_char_inj: "a < 10 \<Longrightarrow> b < 10 \<Longrightarrow> digit_char a = digit_char b \<Longrightarrow> a = b"
proof -
  assume a: "a < 10" and b: "b < 10" and e: "digit_char a = digit_char b"
  have "(of_char (digit_char a) :: nat) = of_char (digit_char b)" using e by simp
  then have "(48 + a) mod 256 = (48 + b) mod 256" by (simp add: digit_char_def)
  with a b show "a = b" by simp
qed

lemma py_str_nat_nonempty: "py_str_nat n \<noteq> []"
  by (subst py_str_nat.simps) simp

lemma py_str_nat_inj: "py_str_nat a = py_str_nat b \<Longrightarrow> a = b"
proof (induction a arbitrary: b rule: py_str_nat.induct)
  case (1 n)
  show ?case
  proof (cases "n < 10")
    case True
    then have sn: "py_str_nat n = [digit_char n]" by (subst py_str_nat.simps) simp
    show ?thesis
    proof (cases "b < 10")
      case True
      then have "py_str_nat b = [digit_char b]" by (subst py_str_nat.simps) simp
      with sn "1.prems" \<open>n < 10\<close> True show ?thesis by (auto dest: digit_char_inj)
    next
      case False
      then have "py_str_nat b = py_str_nat (b div 10) @ [digit_char (b mod 10)]"
        by (subst py_str_nat.simps) simp
      with sn "1.prems" py_str_nat_nonempty [of "b div 10"] show ?thesis by auto
    qed
  next
    case False
    then have sn: "py_str_nat n = py_str_nat (n div 10) @ [digit_char (n mod 10)]"
      by (subst py_str_nat.simps) simp
    show ?thesis
    proof (cases "b < 10")
      case True
      then have "py_str_nat b = [digit_char b]" by (subst py_str_nat.simps) simp
      with sn "1.prems" py_str_nat_nonempty [of "n div 10"] show ?thesis by auto
    next
      case bf: False
      then have sb: "py_str_nat b = py_str_nat (b div 10) @ [digit_char (b mod 10)]"
        by (subst py_str_nat.simps) simp
      from sn sb "1.prems" have e1: "py_str_nat (n div 10) = py_str_nat (b div 10)"
        and e2: "digit_char (n mod 10) = digit_char (b mod 10)" by auto
      from "1.IH" [OF False e1] have d: "n div 10 = b div 10" .
      from e2 have m: "n mod 10 = b mod 10" by (auto dest!: digit_char_inj [rotated 2])
      from d m show ?thesis by (metis div_mult_mod_eq)
    qed
  qed
qed

lemma suffix_name_inj: "inj (\<lambda>j. orig @ ''_'' @ py_str_nat j)"
  by (rule injI) (auto dest: py_str_nat_inj)

lemma taken_finite: "finite {j. i \<le> j \<and> orig @ ''_'' @ py_str_nat j \<in> set existing}"
proof -
  have "finite ((\<lambda>j. orig @ ''_'' @ py_str_nat j) -` set existing)"
    by (rule finite_vimageI [OF _ suffix_name_inj]) simp
  then show ?thesis by (rule rev_finite_subset) auto
qed

text \<open>
  The \<open>while\<close> loop of \<open>sanitize_id\<close>: as long as the candidate is in the set, the next
  candidate is \<open>orig_i\<close> and \<open>i\<close> goes up by one. The set \<open>existing\<close> is finite (a list
  stands for it), which is why the loop ends.
\<close>

function suffix_loop :: "string list \<Rightarrow> string \<Rightarrow> string \<Rightarrow> nat \<Rightarrow> string" where
  "suffix_loop existing orig sanitized i =
     (if sanitized \<in> set existing
      then suffix_loop existing orig (orig @ ''_'' @ py_str_nat i) (i + 1)
      else sanitized)"
  by pat_completeness auto

termination
proof (relation "measure (\<lambda>(existing, orig, sanitized, i).
          card {j. i \<le> j \<and> orig @ ''_'' @ py_str_nat j \<in> set existing}
          + (if sanitized \<in> set existing then 1 else 0))")
  show "wf (measure (\<lambda>(existing, orig, sanitized, i).
          card {j. i \<le> j \<and> orig @ ''_'' @ py_str_nat j \<in> set existing}
          + (if sanitized \<in> set existing then 1 else 0)))" by simp
next
  fix existing :: "string list" and orig sanitized :: string and i :: nat
  assume mem: "sanitized \<in> set existing"
  let ?T = "\<lambda>k. {j. k \<le> j \<and> orig @ ''_'' @ py_str_nat j \<in> set existing}"
  have split: "?T i = (if orig @ ''_'' @ py_str_nat i \<in> set existing
                       then insert i (?T (i + 1)) else ?T (i + 1))"
    by (auto simp: le_Suc_eq Suc_le_eq) (metis le_neq_implies_less)+
  have fin: "finite (?T (i + 1))" by (rule taken_finite)
  have notin: "i \<notin> ?T (i + 1)" by simp
  have "card (?T (i + 1)) + (if orig @ ''_'' @ py_str_nat i \<in> set existing then 1 else 0)
        = card (?T i)"
    using fin notin by (subst split) simp
  with mem show "((existing, orig, orig @ ''_'' @ py_str_nat i, i + 1),
                  existing, orig, sanitized, i)
       \<in> measure (\<lambda>(existing, orig, sanitized, i).
          card {j. i \<le> j \<and> orig @ ''_'' @ py_str_nat j \<in> set existing}
          + (if sanitized \<in> set existing then 1 else 0))"
    by simp
qed

declare suffix_loop.simps [simp del]

text \<open>
  The identifier before the collision step: lines 24 to 29 of the script. The test
  \<open>sanitized[0].isdigit()\<close> is only reached on a non-empty string.
\<close>

definition sanitize_base :: "string \<Rightarrow> string" where
  "sanitize_base text0 =
     (let text = (if text0 = [] then ''node'' else text0);
          sanitized = re_sub_runs (\<lambda>c. \<not> is_ascii_alnum c) ''_'' (py_lower text);
          sanitized = strip_where (\<lambda>c. c = CHR ''_'')
                        (re_sub_runs (\<lambda>c. c = CHR ''_'') ''_'' sanitized)
      in case sanitized of
           [] \<Rightarrow> ''node_'' @ sanitized
         | c # _ \<Rightarrow> if py_isdigit c then ''node_'' @ sanitized else sanitized)"

text \<open>
  \<open>sanitize_id(text, existing)\<close>. The optional argument is \<open>None\<close> or a set, here a list
  without duplicates; the set comes back with the result because the function mutates it.
  \<open>if existing:\<close> is Python's truth test: it holds when the argument is a set with at least
  one member, and fails for \<open>None\<close> and for the empty set alike.
\<close>

definition sanitize_id :: "string \<Rightarrow> string list option \<Rightarrow> string \<times> string list option" where
  "sanitize_id text existing =
     (let sanitized = sanitize_base text
      in case existing of
           None \<Rightarrow> (sanitized, None)
         | Some ex \<Rightarrow>
             if ex \<noteq> []
             then (let accepted = suffix_loop ex sanitized sanitized 2
                   in (accepted, Some (List.insert accepted ex)))
             else (sanitized, Some ex))"




subsection \<open>The intermediate model\<close>

text \<open>
  The dictionaries of the intermediate JSON model. A key that may be missing is an
  \<open>option\<close>; numbers are integers. A node always has its \<open>id\<close>: the converter's
  constructor indexes \<open>n['id']\<close> and nothing in either script works without it.
  One record stands for both style dictionaries (of a node and of an edge).
\<close>

record style =
  fillColor :: "string option"
  strokeColor :: "string option"
  strokeWidth :: "int option"
  strokeStyle :: "string option"

definition empty_style :: style where
  "empty_style = \<lparr>fillColor = None, strokeColor = None, strokeWidth = None, strokeStyle = None\<rparr>"

record node =
  n_id :: string
  n_type :: "string option"
  n_label :: "string option"
  n_x :: "int option"
  n_y :: "int option"
  n_width :: "int option"
  n_height :: "int option"
  n_style :: "style option"

record edge =
  e_id :: "string option"
  e_from :: "string option"
  e_to :: "string option"
  e_type :: "string option"
  e_label :: "string option"
  e_style :: "style option"

record group =
  g_id :: "string option"
  g_label :: "string option"
  g_nodeIds :: "string list option"

record diagram =
  d_title :: "string option"
  d_nodes :: "node list option"
  d_edges :: "edge list option"
  d_groups :: "group list option"

text \<open>\<open>d.get(key, default)\<close> and the truth test of a value that \<open>d.get(key)\<close> returns.\<close>

definition get_or :: "'a option \<Rightarrow> 'a \<Rightarrow> 'a" where
  "get_or v d = (case v of None \<Rightarrow> d | Some x \<Rightarrow> x)"

definition truthy :: "string option \<Rightarrow> bool" where
  "truthy v \<longleftrightarrow> (case v of None \<Rightarrow> False | Some s \<Rightarrow> s \<noteq> [])"

subsection \<open>Pass 1 of \<open>parse_excalidraw\<close>\<close>

text \<open>
  An element of the Excalidraw file, with the fields that pass 1 reads. Coordinates are
  integers, on which \<open>round\<close> is the identity. The constant \<open>confidence\<close> of a node is
  left out.
\<close>

record element =
  el_id :: "string option"
  el_type :: "string option"
  el_isDeleted :: bool
  el_text :: "string option"
  el_containerId :: "string option"
  el_x :: "int option"
  el_y :: "int option"
  el_width :: "int option"
  el_height :: "int option"
  el_backgroundColor :: "string option"
  el_strokeColor :: "string option"

definition excalidraw_shape :: "string \<Rightarrow> string" where
  "excalidraw_shape shape =
     (if shape \<in> set [''rectangle'', ''diamond'', ''ellipse'', ''arrow'', ''line'', ''text'']
      then shape else ''rectangle'')"

fun find_bound_text :: "string option \<Rightarrow> element list \<Rightarrow> string" where
  "find_bound_text eid [] = ''''"
| "find_bound_text eid (el # els) =
     (if el_type el = Some ''text'' \<and> el_containerId el = eid
      then get_or (el_text el) ''''
      else find_bound_text eid els)"

text \<open>The test at the head of the first loop: connectors, free text and deleted elements are skipped.\<close>

definition pass1_skips :: "element \<Rightarrow> bool" where
  "pass1_skips el \<longleftrightarrow>
     el_type el \<in> set [Some ''arrow'', Some ''line'', Some ''text''] \<or> el_isDeleted el"

text \<open>
  Line 67: \<open>find_bound_text(...) or el.get('text', '') or f"Shape {len(nodes)+1}"\<close>;
  \<open>n\<close> is \<open>len(nodes)\<close> at that moment.
\<close>

definition resolve_label :: "element \<Rightarrow> element list \<Rightarrow> nat \<Rightarrow> string" where
  "resolve_label el elements n =
     (let bound = find_bound_text (el_id el) elements
      in if bound \<noteq> [] then bound
         else (let inline = get_or (el_text el) ''''
               in if inline \<noteq> [] then inline
                  else ''Shape '' @ py_str_nat (n + 1)))"

definition element_style :: "element \<Rightarrow> style option" where
  "element_style el =
     (let fill = (if truthy (el_backgroundColor el) \<and> el_backgroundColor el \<noteq> Some ''transparent''
                  then el_backgroundColor el else None);
          stroke = (if truthy (el_strokeColor el) then el_strokeColor el else None)
      in if fill = None \<and> stroke = None then None
         else Some (empty_style\<lparr>fillColor := fill, strokeColor := stroke\<rparr>))"

record pass1_state =
  id_map :: "(string option \<times> string) list"
  existing :: "string list"
  nodes_out :: "node list"

text \<open>One run of the body of the first loop on a shape element.\<close>

definition pass1_shape :: "element list \<Rightarrow> element \<Rightarrow> pass1_state \<Rightarrow> pass1_state" where
  "pass1_shape elements el st =
     (let label = resolve_label el elements (length (nodes_out st));
          (nid, ex) = sanitize_id label (Some (existing st));
          nd = \<lparr>n_id = nid,
                n_type = Some (excalidraw_shape (get_or (el_type el) '''')),
                n_label = Some (py_strip label),
                n_x = Some (get_or (el_x el) 0), n_y = Some (get_or (el_y el) 0),
                n_width = Some (get_or (el_width el) 100),
                n_height = Some (get_or (el_height el) 50),
                n_style = element_style el\<rparr>
      in \<lparr>id_map = AList.update (el_id el) nid (id_map st),
          existing = get_or ex (existing st),
          nodes_out = nodes_out st @ [nd]\<rparr>)"

fun pass1_loop :: "element list \<Rightarrow> element list \<Rightarrow> pass1_state \<Rightarrow> pass1_state" where
  "pass1_loop elements [] st = st"
| "pass1_loop elements (el # els) st =
     (if pass1_skips el then pass1_loop elements els st
      else pass1_loop elements els (pass1_shape elements el st))"

text \<open>Lines 59 to 86: \<open>id_map, existing = {}, set()\<close>, \<open>nodes = []\<close>, then the loop.\<close>

definition parse_pass1 :: "element list \<Rightarrow> pass1_state" where
  "parse_pass1 elements =
     pass1_loop elements elements \<lparr>id_map = [], existing = [], nodes_out = []\<rparr>"

text \<open>
  The label rule as the specification words it: the text of the first text element bound
  to the shape when that text is non-empty, else the inline text when non-empty, else
  the placeholder with the running count of shapes.
\<close>

definition spec_bound_text :: "element \<Rightarrow> element list \<Rightarrow> string option" where
  "spec_bound_text el elements =
     (case List.find (\<lambda>t. el_type t = Some ''text'' \<and> el_containerId t = el_id el) elements of
        Some t \<Rightarrow> el_text t
      | None \<Rightarrow> None)"

definition spec_label :: "element \<Rightarrow> element list \<Rightarrow> nat \<Rightarrow> string" where
  "spec_label el elements processed =
     (if truthy (spec_bound_text el elements) then get_or (spec_bound_text el elements) ''''
      else if truthy (el_text el) then get_or (el_text el) ''''
      else ''Shape '' @ py_str_nat (processed + 1))"

text \<open>A shape element with nothing but a native id, a type and an inline text.\<close>

definition shape_element :: "string \<Rightarrow> string \<Rightarrow> string option \<Rightarrow> element" where
  "shape_element eid ty txt =
     \<lparr>el_id = Some eid, el_type = Some ty, el_isDeleted = False, el_text = txt,
      el_containerId = None, el_x = None, el_y = None, el_width = None, el_height = None,
      el_backgroundColor = None, el_strokeColor = None\<rparr>"

text \<open>A text element bound to the container \<open>cid\<close>.\<close>

definition text_element :: "string \<Rightarrow> string \<Rightarrow> string \<Rightarrow> element" where
  "text_element eid cid txt =
     (shape_element eid ''text'' (Some txt))\<lparr>el_containerId := Some cid\<rparr>"

section \<open>The renderer: \<open>scripts/convert.py\<close>\<close>

subsection \<open>Helpers of the Python library\<close>

definition nl :: string where
  "nl = [CHR 0x0A]"

definition dq :: string where
  "dq = [CHR 0x22]"

text \<open>\<open>s.replace(old, new)\<close> for a one-character \<open>old\<close>.\<close>

definition replace_char :: "char \<Rightarrow> string \<Rightarrow> string \<Rightarrow> string" where
  "replace_char old new s = concat (map (\<lambda>c. if c = old then new else [c]) s)"

text \<open>\<open>html.escape(s)\<close>, with its default \<open>quote=True\<close>.\<close>

definition html_escape_char :: "char \<Rightarrow> string" where
  "html_escape_char c =
     (if c = CHR ''&'' then ''&amp;''
      else if c = CHR ''<'' then ''&lt;''
      else if c = CHR ''>'' then ''&gt;''
      else if c = CHR 0x22 then ''&quot;''
      else if c = CHR 0x27 then ''&#x27;''
      else [c])"

definition html_escape :: "string \<Rightarrow> string" where
  "html_escape s = concat (map html_escape_char s)"

text \<open>
  The text of a float whose value is \<open>n / 2\<close>, as an f-string prints it: the sums of the
  vector renderer divide an integer by two, so every float there is a half-integer. The
  rendering is Python's as long as the value is below \<open>10^16\<close> in magnitude, where \<open>repr\<close>
  still writes all digits.
\<close>

definition py_str_half :: "int \<Rightarrow> string" where
  "py_str_half n =
     (if n < 0 then ''-'' else '''') @ py_str_nat (nat \<bar>n\<bar> div 2)
       @ (if even n then ''.0'' else ''.5'')"

definition bind_err :: "py_error + 'a \<Rightarrow> ('a \<Rightarrow> py_error + 'b) \<Rightarrow> py_error + 'b" where
  "bind_err m f = (case m of Inl e \<Rightarrow> Inl e | Inr x \<Rightarrow> f x)"

text \<open>\<open>d[key]\<close> on a key that may be missing.\<close>

definition index_key :: "string \<Rightarrow> 'a option \<Rightarrow> py_error + 'a" where
  "index_key k v = (case v of None \<Rightarrow> Inl (KeyError k) | Some x \<Rightarrow> Inr x)"

text \<open>A \<open>for\<close> loop that appends lines to a list and stops at the first exception.\<close>

fun collect_lines :: "('a \<Rightarrow> py_error + string list) \<Rightarrow> 'a list \<Rightarrow> py_error + string list" where
  "collect_lines f [] = Inr []"
| "collect_lines f (x # xs) =
     bind_err (f x) (\<lambda>ls. bind_err (collect_lines f xs) (\<lambda>rest. Inr (ls @ rest)))"

subsection \<open>\<open>DiagramConverter\<close>\<close>

text \<open>
  \<open>self.nodes\<close> is a dictionary: an association list in insertion order, in which a
  later node with a known id replaces the value and keeps the place of the key.
\<close>

record converter =
  layout_override :: "string option"
  nodes :: "(string \<times> node) list"
  edges :: "edge list"
  groups :: "group list"
  title :: string

definition DiagramConverter :: "diagram \<Rightarrow> string option \<Rightarrow> converter" where
  "DiagramConverter data layout_mode =
     \<lparr>layout_override = layout_mode,
      nodes = fold (\<lambda>n acc. AList.update (n_id n) n acc) (get_or (d_nodes data) []) [],
      edges = get_or (d_edges data) [],
      groups = get_or (d_groups data) [],
      title = get_or (d_title data) ''''\<rparr>"

definition DEFAULT_LAYOUTS :: "(string \<times> string) list" where
  "DEFAULT_LAYOUTS =
     [(''mermaid'', ''structure''), (''graphviz'', ''structure''),
      (''drawio'', ''position''), (''svg'', ''position'')]"

definition MERMAID_SHAPES :: "(string \<times> string \<times> string) list" where
  "MERMAID_SHAPES =
     [(''rectangle'', ''['' @ dq, dq @ '']''), (''diamond'', ''{'', ''}''),
      (''circle'', ''(('' @ dq, dq @ ''))''), (''ellipse'', ''(['' @ dq, dq @ ''])''),
      (''cylinder'', ''[('' @ dq, dq @ '')]''), (''parallelogram'', ''[/'' @ dq, dq @ ''/]'')]"

definition DRAWIO_SHAPES :: "(string \<times> string) list" where
  "DRAWIO_SHAPES =
     [(''rectangle'', ''rounded=0;whiteSpace=wrap;html=1;''),
      (''diamond'', ''rhombus;whiteSpace=wrap;html=1;''),
      (''circle'', ''ellipse;whiteSpace=wrap;html=1;aspect=fixed;''),
      (''ellipse'', ''ellipse;whiteSpace=wrap;html=1;''),
      (''cylinder'', ''shape=cylinder3;whiteSpace=wrap;html=1;''),
      (''parallelogram'', ''shape=parallelogram;whiteSpace=wrap;html=1;'')]"

definition GRAPHVIZ_SHAPES :: "(string \<times> string) list" where
  "GRAPHVIZ_SHAPES =
     [(''rectangle'', ''box''), (''diamond'', ''diamond''), (''circle'', ''circle''),
      (''ellipse'', ''ellipse''), (''cylinder'', ''cylinder''),
      (''parallelogram'', ''parallelogram'')]"

definition get_layout :: "converter \<Rightarrow> string \<Rightarrow> string" where
  "get_layout c fmt =
     (if truthy (layout_override c) then get_or (layout_override c) ''''
      else get_or (map_of DEFAULT_LAYOUTS fmt) ''structure'')"

text \<open>The sort keys: \<open>e.get('id', '')\<close> and \<open>g.get('id', '')\<close>; \<open>sorted\<close> is stable, as \<open>sort_key\<close> is.\<close>

definition edge_key :: "edge \<Rightarrow> string" where
  "edge_key e = get_or (e_id e) ''''"

definition group_key :: "group \<Rightarrow> string" where
  "group_key g = get_or (g_id g) ''''"

definition sorted_nodes :: "converter \<Rightarrow> (string \<times> node) list" where
  "sorted_nodes c = sort_key fst (nodes c)"

definition sorted_edges :: "converter \<Rightarrow> edge list" where
  "sorted_edges c = sort_key edge_key (edges c)"

definition sorted_groups :: "converter \<Rightarrow> group list" where
  "sorted_groups c = sort_key group_key (groups c)"

definition node_style :: "node \<Rightarrow> style" where
  "node_style n = get_or (n_style n) empty_style"

definition edge_is_dashed :: "edge \<Rightarrow> bool" where
  "edge_is_dashed e \<longleftrightarrow> strokeStyle (get_or (e_style e) empty_style) = Some ''dashed''"

subsection \<open>\<open>to_mermaid\<close>\<close>

definition style_to_mermaid :: "string \<Rightarrow> style \<Rightarrow> string option" where
  "style_to_mermaid node_id st =
     (let parts =
            (if truthy (fillColor st) then [''fill:'' @ get_or (fillColor st) ''''] else [])
          @ (if truthy (strokeColor st) then [''stroke:'' @ get_or (strokeColor st) ''''] else [])
          @ (case strokeWidth st of
               Some w \<Rightarrow> if w \<noteq> 0 then [''stroke-width:'' @ py_str_int w @ ''px''] else []
             | None \<Rightarrow> [])
      in if parts \<noteq> [] then Some (''style '' @ node_id @ '' '' @ py_join '','' parts)
         else None)"

definition mermaid_node :: "string \<Rightarrow> node \<Rightarrow> string" where
  "mermaid_node nid nd =
     (let shape = get_or (n_type nd) ''rectangle'';
          label = replace_char CHR '']'' '')''
                    (replace_char CHR ''['' ''(''
                       (replace_char CHR 0x22 [CHR 0x27] (get_or (n_label nd) nid)));
          (pre, suf) = get_or (map_of MERMAID_SHAPES shape) (''['' @ dq, dq @ '']'')
      in ''    '' @ nid @ pre @ label @ suf)"

text \<open>
  Lines 83 to 88. \<open>max\<close> and \<open>min\<close> are only called behind the test \<open>self.nodes\<close>, on a
  non-empty list.
\<close>

definition mermaid_direction :: "converter \<Rightarrow> py_error + string" where
  "mermaid_direction c =
     (if get_layout c ''mermaid'' = ''position'' \<and> nodes c \<noteq> []
      then (let xs = map (\<lambda>(k, n). get_or (n_x n) 0) (nodes c);
                ys = map (\<lambda>(k, n). get_or (n_y n) 0) (nodes c)
            in bind_err (py_max xs) (\<lambda>max_x. bind_err (py_min xs) (\<lambda>min_x.
               bind_err (py_max ys) (\<lambda>max_y. bind_err (py_min ys) (\<lambda>min_y.
                 Inr (if max_x - min_x > max_y - min_y then ''LR'' else ''TD''))))))
      else Inr ''TD'')"

definition mermaid_title_lines :: "converter \<Rightarrow> string list" where
  "mermaid_title_lines c =
     (if title c \<noteq> [] then [''---'', ''title: '' @ title c, ''---''] else [])"

text \<open>The set \<open>grouped\<close>, as the list of its members.\<close>

definition grouped :: "converter \<Rightarrow> string list" where
  "grouped c = concat (map (\<lambda>g. get_or (g_nodeIds g) []) (groups c))"

text \<open>The nodes that the first loop declares at top level, in the order of the loop.\<close>

definition mermaid_top_nodes :: "converter \<Rightarrow> (string \<times> node) list" where
  "mermaid_top_nodes c = filter (\<lambda>(nid, nd). nid \<notin> set (grouped c)) (sorted_nodes c)"

definition mermaid_top_lines :: "converter \<Rightarrow> string list" where
  "mermaid_top_lines c = map (\<lambda>(nid, nd). mermaid_node nid nd) (mermaid_top_nodes c)"

text \<open>The members of a group that its block declares: the sorted ids that are node ids.\<close>

definition mermaid_group_members :: "converter \<Rightarrow> group \<Rightarrow> (string \<times> node) list" where
  "mermaid_group_members c g =
     concat (map (\<lambda>nid. case map_of (nodes c) nid of
                           Some nd \<Rightarrow> [(nid, nd)] | None \<Rightarrow> [])
                 (sort_key (\<lambda>x. x) (get_or (g_nodeIds g) [])))"

definition mermaid_group_block :: "converter \<Rightarrow> group \<Rightarrow> string list" where
  "mermaid_group_block c g =
     ['''', ''    subgraph '' @ get_or (g_id g) ''group'' @ ''['' @ get_or (g_label g) '''' @ '']'']
     @ map (\<lambda>(nid, nd). ''    '' @ mermaid_node nid nd) (mermaid_group_members c g)
     @ [''    end'']"

definition mermaid_arrow :: "edge \<Rightarrow> string" where
  "mermaid_arrow e =
     (let arrow = (if edge_is_dashed e then ''-.->'' else ''-->'')
      in if e_type e = Some ''line'' then ''---'' else arrow)"

definition mermaid_edge_line :: "edge \<Rightarrow> string" where
  "mermaid_edge_line e =
     (let fr = get_or (e_from e) ''''; to = get_or (e_to e) '''';
          label = get_or (e_label e) ''''
      in if label \<noteq> []
         then ''    '' @ fr @ '' '' @ mermaid_arrow e @ ''|'' @ label @ ''| '' @ to
         else ''    '' @ fr @ '' '' @ mermaid_arrow e @ '' '' @ to)"

definition mermaid_edge_lines :: "converter \<Rightarrow> string list" where
  "mermaid_edge_lines c = map mermaid_edge_line (sorted_edges c)"

definition mermaid_style_lines :: "converter \<Rightarrow> string list" where
  "mermaid_style_lines c =
     concat (map (\<lambda>(nid, nd). case style_to_mermaid nid (node_style nd) of
                                 Some s \<Rightarrow> [''    '' @ s] | None \<Rightarrow> [])
                 (sorted_nodes c))"

definition mermaid_lines :: "converter \<Rightarrow> string \<Rightarrow> string list" where
  "mermaid_lines c direction =
     mermaid_title_lines c
     @ [''flowchart '' @ direction]
     @ mermaid_top_lines c
     @ concat (map (mermaid_group_block c) (sorted_groups c))
     @ ['''']
     @ mermaid_edge_lines c
     @ (if mermaid_style_lines c \<noteq> [] then [''''] @ mermaid_style_lines c else [])"

definition to_mermaid :: "converter \<Rightarrow> py_error + string" where
  "to_mermaid c =
     bind_err (mermaid_direction c) (\<lambda>direction. Inr (py_join nl (mermaid_lines c direction)))"

subsection \<open>\<open>to_graphviz\<close>\<close>

definition graphviz_node_stmt :: "string \<Rightarrow> node \<Rightarrow> string" where
  "graphviz_node_stmt nid nd =
     (let shape = get_or (map_of GRAPHVIZ_SHAPES (get_or (n_type nd) ''rectangle'')) ''box'';
          label = replace_char CHR 0x22 ([CHR 0x5C] @ dq) (get_or (n_label nd) nid);
          st = node_style nd;
          attrs = [''label='' @ dq @ label @ dq, ''shape='' @ shape]
            @ (if truthy (fillColor st)
               then [''fillcolor='' @ dq @ get_or (fillColor st) '''' @ dq, ''style=filled'']
               else [])
            @ (if truthy (strokeColor st)
               then [''color='' @ dq @ get_or (strokeColor st) '''' @ dq] else [])
      in ''    '' @ nid @ '' ['' @ py_join '', '' attrs @ ''];'')"

definition graphviz_node_lines :: "converter \<Rightarrow> string list" where
  "graphviz_node_lines c = map (\<lambda>(nid, nd). graphviz_node_stmt nid nd) (sorted_nodes c)"

definition graphviz_edge_stmt :: "edge \<Rightarrow> string" where
  "graphviz_edge_stmt e =
     (let fr = get_or (e_from e) ''''; to = get_or (e_to e) '''';
          attrs = (if truthy (e_label e)
                   then [''label='' @ dq @ get_or (e_label e) '''' @ dq] else [])
                @ (if edge_is_dashed e then [''style=dashed''] else []);
          attr_str = (if attrs \<noteq> [] then '' ['' @ py_join '', '' attrs @ '']'' else '''')
      in ''    '' @ fr @ '' -> '' @ to @ attr_str @ '';'')"

definition graphviz_edge_lines :: "converter \<Rightarrow> string list" where
  "graphviz_edge_lines c = map graphviz_edge_stmt (sorted_edges c)"

definition graphviz_group_block :: "group \<Rightarrow> string list" where
  "graphviz_group_block g =
     ['''', ''    subgraph cluster_'' @ get_or (g_id g) '''' @ '' {'',
      ''        label='' @ dq @ get_or (g_label g) '''' @ dq @ '';'']
     @ map (\<lambda>nid. ''        '' @ nid @ '';'') (sort_key (\<lambda>x. x) (get_or (g_nodeIds g) []))
     @ [''    }'']"

definition graphviz_lines :: "converter \<Rightarrow> string list" where
  "graphviz_lines c =
     [''digraph G {'']
     @ (if title c \<noteq> [] then [''    label='' @ dq @ title c @ dq @ '';''] else [])
     @ [''    rankdir=TB;'', ''    node [fontname='' @ dq @ ''Arial'' @ dq @ ''];'', '''']
     @ graphviz_node_lines c
     @ ['''']
     @ graphviz_edge_lines c
     @ concat (map graphviz_group_block (sorted_groups c))
     @ [''}'']"

definition to_graphviz :: "converter \<Rightarrow> string" where
  "to_graphviz c = py_join nl (graphviz_lines c)"

subsection \<open>\<open>to_drawio\<close>\<close>

definition drawio_node_cell :: "string \<Rightarrow> node \<Rightarrow> string" where
  "drawio_node_cell nid nd =
     (let shape = get_or (n_type nd) ''rectangle'';
          label = html_escape (get_or (n_label nd) nid);
          base_style = get_or (map_of DRAWIO_SHAPES shape) ''rounded=0;whiteSpace=wrap;html=1;'';
          ns = node_style nd;
          style = base_style
            @ (if truthy (fillColor ns) then ''fillColor='' @ get_or (fillColor ns) '''' @ '';'' else '''')
            @ (if truthy (strokeColor ns) then ''strokeColor='' @ get_or (strokeColor ns) '''' @ '';'' else '''');
          x = get_or (n_x nd) 0; y = get_or (n_y nd) 0;
          w = get_or (n_width nd) 120; h = get_or (n_height nd) 60
      in ''        <mxCell id='' @ dq @ ''cell_'' @ nid @ dq @ '' value='' @ dq @ label @ dq
         @ '' style='' @ dq @ style @ dq @ '' vertex='' @ dq @ ''1'' @ dq
         @ '' parent='' @ dq @ ''1'' @ dq @ ''>'' @ nl
         @ ''          <mxGeometry x='' @ dq @ py_str_int x @ dq @ '' y='' @ dq @ py_str_int y @ dq
         @ '' width='' @ dq @ py_str_int w @ dq @ '' height='' @ dq @ py_str_int h @ dq
         @ '' as='' @ dq @ ''geometry'' @ dq @ ''/>'' @ nl
         @ ''        </mxCell>'')"

definition drawio_edge_style :: "edge \<Rightarrow> string" where
  "drawio_edge_style e =
     ''edgeStyle=orthogonalEdgeStyle;rounded=0;html=1;''
     @ (if edge_is_dashed e then ''dashed=1;'' else '''')"

definition drawio_edge_cell :: "edge \<Rightarrow> string" where
  "drawio_edge_cell e =
     (let eid = get_or (e_id e) '''';
          fr = get_or (e_from e) ''''; to = get_or (e_to e) '''';
          label = html_escape (get_or (e_label e) '''')
      in ''        <mxCell id='' @ dq @ ''cell_'' @ eid @ dq @ '' value='' @ dq @ label @ dq
         @ '' style='' @ dq @ drawio_edge_style e @ dq @ '' edge='' @ dq @ ''1'' @ dq
         @ '' parent='' @ dq @ ''1'' @ dq
         @ '' source='' @ dq @ ''cell_'' @ fr @ dq @ '' target='' @ dq @ ''cell_'' @ to @ dq
         @ ''>'' @ nl
         @ ''          <mxGeometry relative='' @ dq @ ''1'' @ dq @ '' as='' @ dq @ ''geometry'' @ dq
         @ ''/>'' @ nl
         @ ''        </mxCell>'')"

definition drawio_cells :: "converter \<Rightarrow> string list" where
  "drawio_cells c =
     map (\<lambda>(nid, nd). drawio_node_cell nid nd) (sorted_nodes c)
     @ map drawio_edge_cell (sorted_edges c)"

text \<open>The envelope of the document: the text before the cells and the text after them.\<close>

definition drawio_header :: string where
  "drawio_header =
     ''<?xml version='' @ dq @ ''1.0'' @ dq @ '' encoding='' @ dq @ ''UTF-8'' @ dq @ ''?>'' @ nl
     @ ''<mxfile host='' @ dq @ ''diagram-to-vector'' @ dq @ '' type='' @ dq @ ''device'' @ dq
     @ ''>'' @ nl
     @ ''  <diagram name='' @ dq @ ''Page-1'' @ dq @ '' id='' @ dq @ ''diagram_1'' @ dq @ ''>'' @ nl
     @ ''    <mxGraphModel dx='' @ dq @ ''1000'' @ dq @ '' dy='' @ dq @ ''600'' @ dq
     @ '' grid='' @ dq @ ''1'' @ dq @ '' gridSize='' @ dq @ ''10'' @ dq @ ''>'' @ nl
     @ ''      <root>'' @ nl
     @ ''        <mxCell id='' @ dq @ ''0'' @ dq @ ''/>'' @ nl
     @ ''        <mxCell id='' @ dq @ ''1'' @ dq @ '' parent='' @ dq @ ''0'' @ dq @ ''/>'' @ nl"

definition drawio_footer :: string where
  "drawio_footer =
     nl
     @ ''      </root>'' @ nl
     @ ''    </mxGraphModel>'' @ nl
     @ ''  </diagram>'' @ nl
     @ ''</mxfile>''"

definition to_drawio :: "converter \<Rightarrow> string" where
  "to_drawio c = drawio_header @ py_join nl (drawio_cells c) @ drawio_footer"

subsection \<open>\<open>to_svg\<close>\<close>

definition svg_empty :: string where
  "svg_empty = ''<svg xmlns='' @ dq @ ''http://www.w3.org/2000/svg'' @ dq
     @ '' width='' @ dq @ ''100'' @ dq @ '' height='' @ dq @ ''100'' @ dq @ ''></svg>''"

definition svg_dash :: "edge \<Rightarrow> string" where
  "svg_dash e =
     (if edge_is_dashed e then ''stroke-dasharray='' @ dq @ ''8,4'' @ dq else '''')"

text \<open>
  The line of an edge between two resolved nodes \<open>fn\<close> and \<open>tn\<close>; \<open>fn['x']\<close>, \<open>fn['y']\<close>,
  \<open>tn['x']\<close> and \<open>tn['y']\<close> are indexed in this order and raise \<open>KeyError\<close> when missing.
\<close>

definition svg_line :: "int \<Rightarrow> int \<Rightarrow> edge \<Rightarrow> node \<Rightarrow> node \<Rightarrow> py_error + string list" where
  "svg_line ox oy e fn tn =
     bind_err (index_key ''x'' (n_x fn)) (\<lambda>fx.
     bind_err (index_key ''y'' (n_y fn)) (\<lambda>fy.
     bind_err (index_key ''x'' (n_x tn)) (\<lambda>tx.
     bind_err (index_key ''y'' (n_y tn)) (\<lambda>ty.
       (let x1 = py_str_half (2 * fx + get_or (n_width fn) 120 + 2 * ox);
            y1 = py_str_half (2 * fy + get_or (n_height fn) 60 + 2 * oy);
            x2 = py_str_half (2 * tx + get_or (n_width tn) 120 + 2 * ox);
            y2 = py_str_half (2 * ty + get_or (n_height tn) 60 + 2 * oy)
        in Inr [''  <line x1='' @ dq @ x1 @ dq @ '' y1='' @ dq @ y1 @ dq
                @ '' x2='' @ dq @ x2 @ dq @ '' y2='' @ dq @ y2 @ dq
                @ '' stroke='' @ dq @ ''#333'' @ dq @ '' stroke-width='' @ dq @ ''2'' @ dq
                @ '' '' @ svg_dash e @ '' marker-end='' @ dq @ ''url(#arrow)'' @ dq @ ''/>''])))))"

text \<open>
  One run of the edge loop: \<open>edge['from']\<close> and \<open>edge['to']\<close> are indexed, then the edge is
  skipped (\<open>continue\<close>) unless both ends are nodes.
\<close>

definition svg_edge :: "converter \<Rightarrow> int \<Rightarrow> int \<Rightarrow> edge \<Rightarrow> py_error + string list" where
  "svg_edge c ox oy e =
     bind_err (index_key ''from'' (e_from e)) (\<lambda>fr.
     bind_err (index_key ''to'' (e_to e)) (\<lambda>to.
       (case map_of (nodes c) fr of
          None \<Rightarrow> Inr []
        | Some fn \<Rightarrow>
            (case map_of (nodes c) to of
               None \<Rightarrow> Inr []
             | Some tn \<Rightarrow> svg_line ox oy e fn tn))))"

definition svg_node :: "int \<Rightarrow> int \<Rightarrow> string \<times> node \<Rightarrow> py_error + string list" where
  "svg_node ox oy p =
     (case p of (nid, nd) \<Rightarrow>
        bind_err (index_key ''x'' (n_x nd)) (\<lambda>nx.
        bind_err (index_key ''y'' (n_y nd)) (\<lambda>ny.
          (let x = nx + ox; y = ny + oy;
               w = get_or (n_width nd) 120; h = get_or (n_height nd) 60;
               label = html_escape (get_or (n_label nd) nid);
               st = node_style nd;
               fill = get_or (fillColor st) ''#fff'';
               stroke = get_or (strokeColor st) ''#333''
           in Inr [''  <rect x='' @ dq @ py_str_int x @ dq @ '' y='' @ dq @ py_str_int y @ dq
                   @ '' width='' @ dq @ py_str_int w @ dq @ '' height='' @ dq @ py_str_int h @ dq
                   @ '' fill='' @ dq @ fill @ dq @ '' stroke='' @ dq @ stroke @ dq
                   @ '' stroke-width='' @ dq @ ''2'' @ dq @ '' rx='' @ dq @ ''5'' @ dq @ ''/>'',
                   ''  <text x='' @ dq @ py_str_half (2 * x + w) @ dq
                   @ '' y='' @ dq @ py_str_half (2 * y + h + 10) @ dq
                   @ '' font-family='' @ dq @ ''Arial'' @ dq @ '' font-size='' @ dq @ ''14'' @ dq
                   @ '' text-anchor='' @ dq @ ''middle'' @ dq @ ''>'' @ label @ ''</text>'']))))"

definition svg_header :: "int \<Rightarrow> int \<Rightarrow> string" where
  "svg_header width height =
     ''<svg xmlns='' @ dq @ ''http://www.w3.org/2000/svg'' @ dq
     @ '' width='' @ dq @ py_str_int width @ dq @ '' height='' @ dq @ py_str_int height @ dq
     @ ''>'' @ nl
     @ ''  <defs><marker id='' @ dq @ ''arrow'' @ dq @ '' markerWidth='' @ dq @ ''10'' @ dq
     @ '' markerHeight='' @ dq @ ''7'' @ dq @ '' refX='' @ dq @ ''9'' @ dq
     @ '' refY='' @ dq @ ''3.5'' @ dq @ '' orient='' @ dq @ ''auto'' @ dq @ ''>'' @ nl
     @ ''    <polygon points='' @ dq @ ''0 0, 10 3.5, 0 7'' @ dq @ '' fill='' @ dq @ ''#333'' @ dq
     @ ''/></marker></defs>'' @ nl"

definition svg_document :: "int \<Rightarrow> int \<Rightarrow> string list \<Rightarrow> string" where
  "svg_document width height elements =
     svg_header width height @ py_join nl elements @ nl @ ''</svg>''"

definition to_svg :: "converter \<Rightarrow> py_error + string" where
  "to_svg c =
     (if nodes c = [] then Inr svg_empty
      else
        bind_err (py_min (map (\<lambda>(k, n). get_or (n_x n) 0) (nodes c))) (\<lambda>min_x.
        bind_err (py_min (map (\<lambda>(k, n). get_or (n_y n) 0) (nodes c))) (\<lambda>min_y.
        bind_err (py_max (map (\<lambda>(k, n). get_or (n_x n) 0 + get_or (n_width n) 120) (nodes c)))
          (\<lambda>max_x.
        bind_err (py_max (map (\<lambda>(k, n). get_or (n_y n) 0 + get_or (n_height n) 60) (nodes c)))
          (\<lambda>max_y.
          (let pad = 50;
               width = max_x - min_x + pad * 2; height = max_y - min_y + pad * 2;
               ox = - min_x + pad; oy = - min_y + pad
           in bind_err (collect_lines (svg_edge c ox oy) (sorted_edges c)) (\<lambda>edge_elements.
              bind_err (collect_lines (svg_node ox oy) (sorted_nodes c)) (\<lambda>node_elements.
                Inr (svg_document width height (edge_elements @ node_elements))))))))))"






subsection \<open>\<open>convert\<close>\<close>

text \<open>The dictionary of the four bound methods, indexed by \<open>fmt.lower()\<close>, then called.\<close>

definition convert :: "converter \<Rightarrow> string \<Rightarrow> py_error + string" where
  "convert c fmt =
     (let k = py_lower fmt
      in if k = ''mermaid'' then to_mermaid c
         else if k = ''graphviz'' then Inr (to_graphviz c)
         else if k = ''drawio'' then Inr (to_drawio c)
         else if k = ''svg'' then to_svg c
         else Inl (KeyError k))"

subsection \<open>What the renderers read of a converter\<close>


subsection \<open>Small diagrams for concrete runs\<close>

definition plain_node :: "string \<Rightarrow> string \<Rightarrow> string \<Rightarrow> int option \<Rightarrow> int option \<Rightarrow> node" where
  "plain_node nid ty label x y =
     \<lparr>n_id = nid, n_type = Some ty, n_label = Some label, n_x = x, n_y = y,
      n_width = None, n_height = None, n_style = None\<rparr>"



definition diagram_of :: "node list \<Rightarrow> edge list \<Rightarrow> group list \<Rightarrow> diagram" where
  "diagram_of ns es gs =
     \<lparr>d_title = None, d_nodes = Some ns, d_edges = Some es, d_groups = Some gs\<rparr>"

text \<open>Two nodes side by side, \<open>a\<close> at the origin and \<open>b\<close> 200 to its right.\<close>

definition two_nodes :: "node list" where
  "two_nodes =
     [plain_node ''b'' ''diamond'' ''OK?'' (Some 200) (Some 0),
      plain_node ''a'' ''rectangle'' ''Start'' (Some 0) (Some 0)]"





section \<open>Properties of the importer\<close>

subsection \<open>Sanitization against its specification\<close>





























subsection \<open>Pass 1: labels and identifiers\<close>

lemma find_bound_text_spec:
  "find_bound_text (el_id el) elements = get_or (spec_bound_text el elements) ''''"
  by (induction elements) (auto simp: spec_bound_text_def get_or_def)

lemma resolve_label_spec: "resolve_label el elements n = spec_label el elements n"
  by (auto simp: resolve_label_def spec_label_def find_bound_text_spec Let_def truthy_def get_or_def
      split: option.splits)

lemma nodes_out_pass1_shape:
  "nodes_out (pass1_shape elements el st) =
     nodes_out st @
       [\<lparr>n_id = fst (sanitize_id (resolve_label el elements (length (nodes_out st)))
                       (Some (existing st))),
         n_type = Some (excalidraw_shape (get_or (el_type el) '''')),
         n_label = Some (py_strip (resolve_label el elements (length (nodes_out st)))),
         n_x = Some (get_or (el_x el) 0), n_y = Some (get_or (el_y el) 0),
         n_width = Some (get_or (el_width el) 100),
         n_height = Some (get_or (el_height el) 50),
         n_style = element_style el\<rparr>]"
  by (simp add: pass1_shape_def Let_def split: prod.splits)

lemma pass1_loop_labels:
  "map n_label (nodes_out (pass1_loop elements els st)) =
     map n_label (nodes_out st)
     @ map (\<lambda>(k, el). Some (py_strip (spec_label el elements k)))
         (enumerate (length (nodes_out st)) (filter (\<lambda>el. \<not> pass1_skips el) els))"
proof (induction els arbitrary: st)
  case Nil
  then show ?case by simp
next
  case (Cons el els)
  show ?case
  proof (cases "pass1_skips el")
    case True
    then show ?thesis using Cons.IH [of st] by simp
  next
    case False
    then show ?thesis using Cons.IH [of "pass1_shape elements el st"]
      by (simp add: nodes_out_pass1_shape resolve_label_spec)
  qed
qed

text \<open>
  The collision set of pass 1 starts empty, and an empty set fails the test
  \<open>if existing:\<close>, so no call ever records a name: the set is still empty after the loop
  and every node id is the identifier before the collision step.
\<close>

lemma existing_pass1_shape:
  "existing st = [] \<Longrightarrow> existing (pass1_shape elements el st) = []"
  by (simp add: pass1_shape_def Let_def sanitize_id_def get_or_def split: prod.splits)

lemma existing_pass1_loop:
  "existing st = [] \<Longrightarrow> existing (pass1_loop elements els st) = []"
  by (induction els arbitrary: st) (simp_all add: existing_pass1_shape)

lemma pass1_loop_ids:
  "existing st = [] \<Longrightarrow> map n_id (nodes_out (pass1_loop elements els st)) =
     map n_id (nodes_out st)
     @ map (\<lambda>(k, el). sanitize_base (resolve_label el elements k))
         (enumerate (length (nodes_out st)) (filter (\<lambda>el. \<not> pass1_skips el) els))"
proof (induction els arbitrary: st)
  case Nil
  then show ?case by simp
next
  case (Cons el els)
  show ?case
  proof (cases "pass1_skips el")
    case True
    then show ?thesis using Cons.IH [of st] Cons.prems by simp
  next
    case False
    have e: "existing (pass1_shape elements el st) = []"
      using Cons.prems by (rule existing_pass1_shape)
    show ?thesis using False Cons.IH [OF e] Cons.prems
      by (simp add: nodes_out_pass1_shape sanitize_id_def)
  qed
qed

lemma parse_pass1_never_suffixes:
  "existing (parse_pass1 elements) = []
   \<and> map n_id (nodes_out (parse_pass1 elements)) =
       map (\<lambda>(k, el). sanitize_base (resolve_label el elements k))
         (enumerate 0 (filter (\<lambda>el. \<not> pass1_skips el) elements))"
  by (simp add: parse_pass1_def existing_pass1_loop pass1_loop_ids)

text \<open>
  Claim C1 (the importer never emits two nodes with the same id) fails on the code. Two
  rectangles with the inline text \<open>A\<close> both become the node \<open>a\<close>, and the collision set
  is empty afterwards; the same call on a set that already holds \<open>a\<close> does return \<open>a_2\<close>
  and records it.
\<close>

theorem parse_pass1_duplicate_ids:
  "map n_id (nodes_out (parse_pass1
      [shape_element ''r1'' ''rectangle'' (Some ''A''),
       shape_element ''r2'' ''rectangle'' (Some ''A'')])) = [''a'', ''a'']
   \<and> existing (parse_pass1
      [shape_element ''r1'' ''rectangle'' (Some ''A''),
       shape_element ''r2'' ''rectangle'' (Some ''A'')]) = []
   \<and> sanitize_id ''A'' (Some []) = (''a'', Some [])
   \<and> sanitize_id ''A'' (Some [''a'']) = (''a_2'', Some [''a_2'', ''a''])"
  by code_simp

text \<open>
  Claim C6. The label that pass 1 resolves for a shape is the one the specification
  describes: the text of the first text element whose \<open>containerId\<close> equals the shape's
  id when that text is non-empty, else the inline text when non-empty, else \<open>Shape N\<close>
  with \<open>N\<close> one more than the number of shapes processed so far. The nodes of pass 1 are
  the shapes in order (the elements that are no connector, no text and not deleted), and
  the label of each node is its resolved label with the surrounding whitespace stripped.
\<close>

theorem pass1_label_precedence:
  "resolve_label el elements n = spec_label el elements n
   \<and> map n_label (nodes_out (parse_pass1 elements)) =
       map (\<lambda>(k, el). Some (py_strip (spec_label el elements k)))
         (enumerate 0 (filter (\<lambda>el. \<not> pass1_skips el) elements))"
  by (simp add: resolve_label_spec parse_pass1_def pass1_loop_labels)

theorem pass1_label_precedence_witness:
  "map n_label (nodes_out (parse_pass1
      [shape_element ''r1'' ''rectangle'' None,
       text_element ''t1'' ''r2'' ''  Hi there '',
       shape_element ''r2'' ''diamond'' (Some ''A''),
       shape_element ''r3'' ''ellipse'' (Some ''In'')]))
   = [Some ''Shape 1'', Some ''Hi there'', Some ''In'']"
proof -
  let ?els = "[shape_element ''r1'' ''rectangle'' None,
       text_element ''t1'' ''r2'' ''  Hi there '',
       shape_element ''r2'' ''diamond'' (Some ''A''),
       shape_element ''r3'' ''ellipse'' (Some ''In'')]"
  have "map (\<lambda>(k, el). Some (py_strip (spec_label el ?els k)))
          (enumerate 0 (filter (\<lambda>el. \<not> pass1_skips el) ?els))
        = [Some ''Shape 1'', Some ''Hi there'', Some ''In'']"
    by code_simp
  with pass1_label_precedence [of _ ?els, THEN conjunct2] show ?thesis by simp
qed

section \<open>Properties of the renderer\<close>

subsection \<open>Dispatch on the format name\<close>

text \<open>
  Claim C9. \<open>convert\<close> looks the lowercased format name up: a name whose lowercase form
  is one of the four formats gives what the render method of that format gives, whatever
  the case of its letters, and every other name raises (\<open>KeyError\<close>) and returns nothing.
\<close>

theorem convert_dispatch:
  "(py_lower fmt = ''mermaid'' \<longrightarrow> convert c fmt = to_mermaid c)
   \<and> (py_lower fmt = ''graphviz'' \<longrightarrow> convert c fmt = Inr (to_graphviz c))
   \<and> (py_lower fmt = ''drawio'' \<longrightarrow> convert c fmt = Inr (to_drawio c))
   \<and> (py_lower fmt = ''svg'' \<longrightarrow> convert c fmt = to_svg c)
   \<and> (py_lower fmt \<notin> set [''mermaid'', ''graphviz'', ''drawio'', ''svg'']
        \<longrightarrow> convert c fmt = Inl (KeyError (py_lower fmt)))"
  by (simp add: convert_def Let_def)

theorem convert_dispatch_witness:
  "convert (DiagramConverter (diagram_of two_nodes [] []) None) ''MERMAID''
     = to_mermaid (DiagramConverter (diagram_of two_nodes [] []) None)
   \<and> convert (DiagramConverter (diagram_of two_nodes [] []) None) ''GraphViz''
     = Inr (to_graphviz (DiagramConverter (diagram_of two_nodes [] []) None))
   \<and> convert (DiagramConverter (diagram_of two_nodes [] []) None) ''drawIO''
     = Inr (to_drawio (DiagramConverter (diagram_of two_nodes [] []) None))
   \<and> convert (DiagramConverter (diagram_of two_nodes [] []) None) ''Svg''
     = to_svg (DiagramConverter (diagram_of two_nodes [] []) None)
   \<and> convert (DiagramConverter (diagram_of two_nodes [] []) None) ''png''
     = Inl (KeyError ''png'')"
proof -
  let ?c = "DiagramConverter (diagram_of two_nodes [] []) None"
  have l1: "py_lower ''MERMAID'' = ''mermaid''" by code_simp
  have l2: "py_lower ''GraphViz'' = ''graphviz''" by code_simp
  have l3: "py_lower ''drawIO'' = ''drawio''" by code_simp
  have l4: "py_lower ''Svg'' = ''svg''" by code_simp
  have l5: "py_lower ''png'' = ''png''" by code_simp
  have n5: "py_lower ''png'' \<notin> set [''mermaid'', ''graphviz'', ''drawio'', ''svg'']"
    by code_simp
  have c1: "convert ?c ''MERMAID'' = to_mermaid ?c"
    using convert_dispatch [of "''MERMAID''" ?c] l1 by simp
  have c2: "convert ?c ''GraphViz'' = Inr (to_graphviz ?c)"
    using convert_dispatch [of "''GraphViz''" ?c] l2 by simp
  have c3: "convert ?c ''drawIO'' = Inr (to_drawio ?c)"
    using convert_dispatch [of "''drawIO''" ?c] l3 by simp
  have c4: "convert ?c ''Svg'' = to_svg ?c"
    using convert_dispatch [of "''Svg''" ?c] l4 by simp
  have c5: "convert ?c ''png'' = Inl (KeyError ''png'')"
    using convert_dispatch [of "''png''" ?c] n5 l5 by simp
  from c1 c2 c3 c4 c5 show ?thesis by (intro conjI)
qed

subsection \<open>The flow direction of \<open>to_mermaid\<close>\<close>

lemma py_max_Max: "xs \<noteq> [] \<Longrightarrow> py_max xs = Inr (Max (set xs))"
  using Max.set_eq_fold [of "hd xs" "tl xs"] by (cases xs) simp_all

lemma py_min_Min: "xs \<noteq> [] \<Longrightarrow> py_min xs = Inr (Min (set xs))"
  using Min.set_eq_fold [of "hd xs" "tl xs"] by (cases xs) simp_all

lemma mermaid_direction_position:
  assumes "get_layout c ''mermaid'' = ''position''" and "nodes c \<noteq> []"
  shows "mermaid_direction c =
     Inr (if Max ((\<lambda>(k, n). get_or (n_x n) 0) ` set (nodes c))
             - Min ((\<lambda>(k, n). get_or (n_x n) 0) ` set (nodes c))
           > Max ((\<lambda>(k, n). get_or (n_y n) 0) ` set (nodes c))
             - Min ((\<lambda>(k, n). get_or (n_y n) 0) ` set (nodes c))
          then ''LR'' else ''TD'')"
  using assms
  by (simp add: mermaid_direction_def Let_def py_max_Max py_min_Min bind_err_def)

lemma mermaid_direction_other:
  "get_layout c ''mermaid'' \<noteq> ''position'' \<or> nodes c = [] \<Longrightarrow> mermaid_direction c = Inr ''TD''"
  by (auto simp: mermaid_direction_def)


lemma to_mermaid_lines:
  "mermaid_direction c = Inr d \<Longrightarrow> to_mermaid c = Inr (py_join nl (mermaid_lines c d))"
  by (simp add: to_mermaid_def bind_err_def)

lemma get_layout_position:
  "get_layout c ''mermaid'' = ''position'' \<longleftrightarrow> layout_override c = Some ''position''"
  by (auto simp: get_layout_def truthy_def get_or_def DEFAULT_LAYOUTS_def split: option.splits)

text \<open>
  Claim C4. With position layout active for mermaid (which is the case exactly when the
  override is \<open>position\<close>) and at least one node, the direction is \<open>LR\<close> when the span of
  the \<open>x\<close> coordinates is greater than the span of the \<open>y\<close> coordinates (a missing
  coordinate counts as 0) and \<open>TD\<close> otherwise, ties included; under structure layout it
  is \<open>TD\<close>. The direction is the one in the \<open>flowchart\<close> line of the output.
\<close>

theorem mermaid_direction_rule:
  "(get_layout c ''mermaid'' = ''position'') = (layout_override c = Some ''position'')
   \<and> (get_layout c ''mermaid'' = ''position'' \<and> nodes c \<noteq> [] \<longrightarrow>
        to_mermaid c = Inr (py_join nl (mermaid_lines c
          (if Max ((\<lambda>(k, n). get_or (n_x n) 0) ` set (nodes c))
                - Min ((\<lambda>(k, n). get_or (n_x n) 0) ` set (nodes c))
              > Max ((\<lambda>(k, n). get_or (n_y n) 0) ` set (nodes c))
                - Min ((\<lambda>(k, n). get_or (n_y n) 0) ` set (nodes c))
           then ''LR'' else ''TD''))))
   \<and> (get_layout c ''mermaid'' = ''structure'' \<longrightarrow>
        to_mermaid c = Inr (py_join nl (mermaid_lines c ''TD'')))
   \<and> mermaid_lines c d =
        mermaid_title_lines c @ (''flowchart '' @ d)
          # mermaid_top_lines c @ concat (map (mermaid_group_block c) (sorted_groups c))
          @ '''' # mermaid_edge_lines c
          @ (if mermaid_style_lines c \<noteq> [] then '''' # mermaid_style_lines c else [])"
proof (intro conjI impI)
  show "(get_layout c ''mermaid'' = ''position'') = (layout_override c = Some ''position'')"
    by (rule get_layout_position)
next
  assume "get_layout c ''mermaid'' = ''position'' \<and> nodes c \<noteq> []"
  then show "to_mermaid c = Inr (py_join nl (mermaid_lines c
          (if Max ((\<lambda>(k, n). get_or (n_x n) 0) ` set (nodes c))
                - Min ((\<lambda>(k, n). get_or (n_x n) 0) ` set (nodes c))
              > Max ((\<lambda>(k, n). get_or (n_y n) 0) ` set (nodes c))
                - Min ((\<lambda>(k, n). get_or (n_y n) 0) ` set (nodes c))
           then ''LR'' else ''TD'')))"
    by (intro to_mermaid_lines mermaid_direction_position) simp_all
next
  assume "get_layout c ''mermaid'' = ''structure''"
  then have "mermaid_direction c = Inr ''TD''"
    by (intro mermaid_direction_other) simp
  then show "to_mermaid c = Inr (py_join nl (mermaid_lines c ''TD''))"
    by (rule to_mermaid_lines)
next
  show "mermaid_lines c d =
        mermaid_title_lines c @ (''flowchart '' @ d)
          # mermaid_top_lines c @ concat (map (mermaid_group_block c) (sorted_groups c))
          @ '''' # mermaid_edge_lines c
          @ (if mermaid_style_lines c \<noteq> [] then '''' # mermaid_style_lines c else [])"
    by (simp add: mermaid_lines_def)
qed

theorem mermaid_direction_rule_witness:
  "to_mermaid (DiagramConverter (diagram_of two_nodes [] []) (Some ''position''))
     = Inr (py_join nl (mermaid_lines
         (DiagramConverter (diagram_of two_nodes [] []) (Some ''position'')) ''LR''))
   \<and> to_mermaid (DiagramConverter (diagram_of
         [plain_node ''a'' ''rectangle'' ''A'' (Some 0) (Some 0),
          plain_node ''b'' ''rectangle'' ''B'' (Some 100) (Some 100)] [] []) (Some ''position''))
     = Inr (py_join nl (mermaid_lines (DiagramConverter (diagram_of
         [plain_node ''a'' ''rectangle'' ''A'' (Some 0) (Some 0),
          plain_node ''b'' ''rectangle'' ''B'' (Some 100) (Some 100)] [] []) (Some ''position''))
         ''TD''))
   \<and> to_mermaid (DiagramConverter (diagram_of two_nodes [] []) None)
     = Inr (py_join nl (mermaid_lines (DiagramConverter (diagram_of two_nodes [] []) None) ''TD''))"
proof -
  let ?p = "DiagramConverter (diagram_of two_nodes [] []) (Some ''position'')"
  let ?t = "DiagramConverter (diagram_of
         [plain_node ''a'' ''rectangle'' ''A'' (Some 0) (Some 0),
          plain_node ''b'' ''rectangle'' ''B'' (Some 100) (Some 100)] [] []) (Some ''position'')"
  let ?s = "DiagramConverter (diagram_of two_nodes [] []) None"
  have h1: "get_layout ?p ''mermaid'' = ''position'' \<and> nodes ?p \<noteq> []" by code_simp
  have v1: "(if Max ((\<lambda>(k, n). get_or (n_x n) 0) ` set (nodes ?p))
                - Min ((\<lambda>(k, n). get_or (n_x n) 0) ` set (nodes ?p))
              > Max ((\<lambda>(k, n). get_or (n_y n) 0) ` set (nodes ?p))
                - Min ((\<lambda>(k, n). get_or (n_y n) 0) ` set (nodes ?p))
           then ''LR'' else ''TD'') = ''LR''"
    by code_simp
  have h2: "get_layout ?t ''mermaid'' = ''position'' \<and> nodes ?t \<noteq> []" by code_simp
  have v2: "(if Max ((\<lambda>(k, n). get_or (n_x n) 0) ` set (nodes ?t))
                - Min ((\<lambda>(k, n). get_or (n_x n) 0) ` set (nodes ?t))
              > Max ((\<lambda>(k, n). get_or (n_y n) 0) ` set (nodes ?t))
                - Min ((\<lambda>(k, n). get_or (n_y n) 0) ` set (nodes ?t))
           then ''LR'' else ''TD'') = ''TD''"
    by code_simp
  have h3: "get_layout ?s ''mermaid'' = ''structure''" by code_simp
  have a: "to_mermaid ?p = Inr (py_join nl (mermaid_lines ?p ''LR''))"
    using mermaid_direction_rule [of ?p, THEN conjunct2, THEN conjunct1, rule_format, OF h1]
    by (simp only: v1)
  have b: "to_mermaid ?t = Inr (py_join nl (mermaid_lines ?t ''TD''))"
    using mermaid_direction_rule [of ?t, THEN conjunct2, THEN conjunct1, rule_format, OF h2]
    by (simp only: v2)
  have c: "to_mermaid ?s = Inr (py_join nl (mermaid_lines ?s ''TD''))"
    using mermaid_direction_rule [of ?s, THEN conjunct2, THEN conjunct2, THEN conjunct1,
        rule_format, OF h3] .
  from a b c show ?thesis by (intro conjI)
qed

subsection \<open>Where the declaration lines of a node are\<close>


lemma sublist_mid: "sublist xs (as @ xs @ bs)"
  unfolding sublist_def by blast









subsection \<open>Loops that collect lines, and joined lines\<close>




lemma collect_lines_cong:
  "(\<And>x. x \<in> set xs \<Longrightarrow> f x = g x) \<Longrightarrow> collect_lines f xs = collect_lines g xs"
  by (induction xs) simp_all


lemma sublist_trans: "sublist xs ys \<Longrightarrow> sublist ys zs \<Longrightarrow> sublist xs zs"
  by (rule sublist_order.order.trans)


subsection \<open>When \<open>to_svg\<close> returns\<close>











subsection \<open>Edges in the four outputs\<close>


















subsection \<open>Independence of the input order\<close>

















end
